theory Spec2Isabelle
  imports Main "HOL-Library.Char_ord" "HOL-Library.List_Lexorder"
begin

section \<open>Python values\<close>

text \<open>
  The snapshots handled by the cache, the query handler and the watcher are JSON-shaped
  Python values: \<open>None\<close>, booleans, integers, strings, lists and dictionaries with
  string keys. A dictionary is an association list in insertion order; its keys are
  distinct, and a lookup takes the first entry of a key. Floats are not modelled.
\<close>

datatype json =
    JNull
  | JBool bool
  | JInt int
  | JStr string
  | JArr "json list"
  | JObj "(string \<times> json) list"

datatype py_error =
    AttributeError
  | TypeError
  | ValueError
  | UnicodeDecodeError
  | JSONDecodeError
  | KeyError
  | OSError

text \<open>Truth value of a Python object, as \<open>if x:\<close> tests it.\<close>

fun truthy :: "json \<Rightarrow> bool" where
  "truthy JNull = False"
| "truthy (JBool b) = b"
| "truthy (JInt n) = (n \<noteq> 0)"
| "truthy (JStr s) = (s \<noteq> [])"
| "truthy (JArr xs) = (xs \<noteq> [])"
| "truthy (JObj d) = (d \<noteq> [])"

text \<open>\<open>d.get(k)\<close> on a dictionary: the value, or \<open>None\<close> when the key is missing.\<close>

definition dict_get :: "(string \<times> json) list \<Rightarrow> string \<Rightarrow> json" where
  "dict_get d k = (case map_of d k of None \<Rightarrow> JNull | Some v \<Rightarrow> v)"



text \<open>\<open>x.get(k)\<close> on any object: only a dictionary has the method.\<close>

fun py_get :: "json \<Rightarrow> string \<Rightarrow> py_error + json" where
  "py_get (JObj d) k = Inr (dict_get d k)"
| "py_get _ k = Inl AttributeError"

text \<open>
  \<open>x.copy()\<close>: dictionaries and lists have the method, the other values do not. On
  values the shallow copy of a container is the container itself; the sharing of the
  nested objects is the subject of the reference model further down.
\<close>

fun py_copy :: "json \<Rightarrow> py_error + json" where
  "py_copy (JObj d) = Inr (JObj d)"
| "py_copy (JArr xs) = Inr (JArr xs)"
| "py_copy _ = Inl AttributeError"

text \<open>
  Python's \<open>==\<close> on these values: \<open>True == 1\<close> and \<open>False == 0\<close>, lists are compared
  element by element, dictionaries regardless of the order of their keys.
\<close>

fun canon :: "json \<Rightarrow> json" where
  "canon JNull = JNull"
| "canon (JBool b) = JInt (if b then 1 else 0)"
| "canon (JInt n) = JInt n"
| "canon (JStr s) = JStr s"
| "canon (JArr xs) = JArr (map canon xs)"
| "canon (JObj d) = JObj (sort_key fst (map (\<lambda>kv. (fst kv, canon (snd kv))) d))"

definition py_eq :: "json \<Rightarrow> json \<Rightarrow> bool" where
  "py_eq a b = (canon a = canon b)"

section \<open>Library functions and the environment\<close>

text \<open>
  The functions of the Python standard library that the code calls are parameters of
  the model: the JSON codec, the two conversions of \<open>datetime\<close>, \<open>str\<close> of a value
  inside an f-string, \<open>int\<close> of a header, the decoding of the request bytes and
  \<open>Path.with_suffix\<close>. A point in time is a number of microseconds.
\<close>

record pylib =
  loads :: "string \<Rightarrow> json option"
  dumps :: "json \<Rightarrow> string"
  isoformat :: "int \<Rightarrow> string"
  fromisoformat :: "string \<Rightarrow> int option"
  py_str :: "json \<Rightarrow> string"
  py_int :: "string \<Rightarrow> int option"
  decode :: "string \<Rightarrow> string option"
  with_suffix :: "string \<Rightarrow> string \<Rightarrow> string option"

text \<open>The file system maps a path to the text of the file.\<close>

type_synonym fs = "string \<rightharpoonup> string"

text \<open>
  What goes wrong while the cache file is written: nothing, \<open>open\<close> of the temporary
  file fails, the write stops after some characters, or the rename fails.
\<close>

datatype io_fault = NoFault | OpenFails | WriteFails nat | ReplaceFails

section \<open>The cache (mcp\_server/cache.py)\<close>

record cache =
  cache_file :: "string option"
  c_state :: json
  last_update :: "int option"

text \<open>The body of the \<open>try\<close> block of \<open>_save_to_file\<close>.\<close>

definition save_body :: "pylib \<Rightarrow> cache \<Rightarrow> fs \<Rightarrow> io_fault \<Rightarrow> string \<Rightarrow> py_error option \<times> fs" where
  "save_body lib c files fault target =
     (let cache_data = JObj [(''state'', c_state c),
            (''last_update'', (case last_update c of None \<Rightarrow> JNull
                                | Some t \<Rightarrow> JStr (isoformat lib t)))]
      in case with_suffix lib target ''.tmp'' of
           None \<Rightarrow> (Some ValueError, files)
         | Some temp_file \<Rightarrow>
             (case fault of
                OpenFails \<Rightarrow> (Some OSError, files)
              | WriteFails k \<Rightarrow> (Some OSError, files(temp_file \<mapsto> take k (dumps lib cache_data)))
              | ReplaceFails \<Rightarrow> (Some OSError, files(temp_file \<mapsto> dumps lib cache_data))
              | NoFault \<Rightarrow>
                  (None, (files(temp_file := None))(target \<mapsto> dumps lib cache_data))))"

text \<open>
  \<open>_save_to_file\<close>: the \<open>except Exception\<close> clause logs the error and returns, so
  only the file system is left of the attempt.
\<close>

definition save_to_file :: "pylib \<Rightarrow> cache \<Rightarrow> fs \<Rightarrow> io_fault \<Rightarrow> string \<Rightarrow> fs" where
  "save_to_file lib c files fault target = snd (save_body lib c files fault target)"

text \<open>
  \<open>update(game_state)\<close> at time \<open>now\<close>. The result is the exception that leaves the
  method, if any, with the cache and the file system as the call leaves them. The
  \<open>copy\<close> comes first and raises before anything is stored; the f-string of the last
  line calls \<open>game_state.get\<close> after the state is stored and saved.
\<close>

definition update :: "pylib \<Rightarrow> cache \<Rightarrow> fs \<Rightarrow> int \<Rightarrow> io_fault \<Rightarrow> json \<Rightarrow> py_error option \<times> cache \<times> fs" where
  "update lib c files now fault game_state =
     (case py_copy game_state of
        Inl e \<Rightarrow> (Some e, c, files)
      | Inr cp \<Rightarrow>
          (let c' = c\<lparr>c_state := cp, last_update := Some now\<rparr>;
               files' = (case cache_file c' of
                           None \<Rightarrow> files
                         | Some target \<Rightarrow> save_to_file lib c' files fault target)
           in case py_get game_state ''turn'' of
                Inl e \<Rightarrow> (Some e, c', files')
              | Inr _ \<Rightarrow> (None, c', files')))"

text \<open>\<open>get_latest()\<close>: \<open>self._state.copy() if self._state else None\<close>.\<close>

definition get_latest :: "cache \<Rightarrow> py_error + json" where
  "get_latest c = (if truthy (c_state c) then py_copy (c_state c) else Inr JNull)"

text \<open>\<open>clear()\<close>.\<close>

definition clear :: "cache \<Rightarrow> fs \<Rightarrow> cache \<times> fs" where
  "clear c files =
     (c\<lparr>c_state := JNull, last_update := None\<rparr>,
      (case cache_file c of
         None \<Rightarrow> files
       | Some target \<Rightarrow> files(target := None)))"

text \<open>
  The body of the \<open>try\<close> block of \<open>_load_from_file\<close>; \<open>readable\<close> says whether
  \<open>open\<close> succeeds on an existing file.
\<close>

definition load_body :: "pylib \<Rightarrow> cache \<Rightarrow> fs \<Rightarrow> bool \<Rightarrow> string \<Rightarrow> py_error + cache" where
  "load_body lib c files readable target =
     (if \<not> readable then Inl OSError
      else case files target of
        None \<Rightarrow> Inl OSError
      | Some text \<Rightarrow>
          (case loads lib text of
             None \<Rightarrow> Inl JSONDecodeError
           | Some cache_data \<Rightarrow>
               (case py_get cache_data ''state'' of
                  Inl e \<Rightarrow> Inl e
                | Inr st \<Rightarrow>
                    (case py_get cache_data ''last_update'' of
                       Inl e \<Rightarrow> Inl e
                     | Inr last_update_str \<Rightarrow>
                         (if truthy last_update_str then
                            (case last_update_str of
                               JStr s \<Rightarrow>
                                 (case fromisoformat lib s of
                                    None \<Rightarrow> Inl ValueError
                                  | Some t \<Rightarrow> Inr (c\<lparr>c_state := st, last_update := Some t\<rparr>))
                             | _ \<Rightarrow> Inl TypeError)
                          else Inr (c\<lparr>c_state := st\<rparr>))))))"

text \<open>\<open>_load_from_file\<close>: any exception resets the state and the timestamp.\<close>

definition load_from_file :: "pylib \<Rightarrow> cache \<Rightarrow> fs \<Rightarrow> bool \<Rightarrow> string \<Rightarrow> cache" where
  "load_from_file lib c files readable target =
     (case load_body lib c files readable target of
        Inl e \<Rightarrow> c\<lparr>c_state := JNull, last_update := None\<rparr>
      | Inr c' \<Rightarrow> c')"

text \<open>The constructor \<open>GameStateCache(cache_file)\<close>.\<close>

definition init_cache :: "pylib \<Rightarrow> string option \<Rightarrow> fs \<Rightarrow> bool \<Rightarrow> cache" where
  "init_cache lib file files readable =
     (let c = \<lparr>cache_file = file, c_state = JNull, last_update = None\<rparr>
      in case file of
           None \<Rightarrow> c
         | Some target \<Rightarrow>
             (if files target \<noteq> None then load_from_file lib c files readable target else c))"

text \<open>A run of \<open>update\<close> calls, each with its time and its fault, stopping at an exception.\<close>

fun updates :: "pylib \<Rightarrow> cache \<Rightarrow> fs \<Rightarrow> (int \<times> io_fault \<times> json) list \<Rightarrow> py_error option \<times> cache \<times> fs" where
  "updates lib c files [] = (None, c, files)"
| "updates lib c files ((now, fault, s) # rest) =
     (case update lib c files now fault s of
        (Some e, c', files') \<Rightarrow> (Some e, c', files')
      | (None, c', files') \<Rightarrow> updates lib c' files' rest)"

section \<open>The query handler (mcp\_server/handlers.py)\<close>

text \<open>
  \<open>QueryHandler.handle_query(request_data)\<close>: the response dictionary, or the
  exception that leaves the method.
\<close>

definition no_state_response :: json where
  "no_state_response =
     JObj [(''error'', JStr ''No game state available''),
           (''message'', JStr ''Waiting for Heroes III save file to be detected'')]"

definition turn_mismatch_response :: "pylib \<Rightarrow> json \<Rightarrow> json \<Rightarrow> json" where
  "turn_mismatch_response lib requested_turn cached_turn =
     JObj [(''error'', JStr ''Turn not available''),
           (''message'', JStr (''Requested turn '' @ py_str lib requested_turn
                              @ '', but only turn '' @ py_str lib cached_turn
                              @ '' is available''))]"

definition success_response :: "pylib \<Rightarrow> cache \<Rightarrow> json \<Rightarrow> json" where
  "success_response lib c game_state =
     JObj [(''success'', JBool True),
           (''data'', game_state),
           (''metadata'',
              JObj [(''cached_at'', (case last_update c of None \<Rightarrow> JNull
                                     | Some t \<Rightarrow> JStr (isoformat lib t))),
                    (''version'', JStr ''1.0.0'')])]"

definition handle_query :: "pylib \<Rightarrow> cache \<Rightarrow> json \<Rightarrow> py_error + json" where
  "handle_query lib c request_data =
     (case get_latest c of
        Inl e \<Rightarrow> Inl e
      | Inr game_state \<Rightarrow>
          (if game_state = JNull then Inr no_state_response
           else case py_get request_data ''turn'' of
             Inl e \<Rightarrow> Inl e
           | Inr requested_turn \<Rightarrow>
               (if requested_turn \<noteq> JNull then
                  (case py_get game_state ''turn'' of
                     Inl e \<Rightarrow> Inl e
                   | Inr cached_turn \<Rightarrow>
                       (if \<not> py_eq requested_turn cached_turn
                        then Inr (turn_mismatch_response lib requested_turn cached_turn)
                        else Inr (success_response lib c game_state)))
                else Inr (success_response lib c game_state))))"

section \<open>The HTTP request handler (mcp\_server/server.py)\<close>

text \<open>
  A POST request as \<open>MCPRequestHandler.handle_query\<close> reads it: the Content-Length
  header, if present, and the bytes of the body. The handler answers with a status and
  a JSON payload (\<open>send_response\<close>), or with an error page (\<open>send_error\<close>).
\<close>

record request =
  content_length :: "string option"
  rfile :: string

datatype http_response = Response nat json | SendError nat string

definition server_handle_query :: "pylib \<Rightarrow> cache \<Rightarrow> request \<Rightarrow> py_error + http_response" where
  "server_handle_query lib c req =
     (case (case content_length req of None \<Rightarrow> Some 0 | Some h \<Rightarrow> py_int lib h) of
        None \<Rightarrow> Inl ValueError
      | Some n \<Rightarrow>
          (case (if n > 0 then decode lib (take (nat n) (rfile req)) else Some ''{}'') of
             None \<Rightarrow> Inl UnicodeDecodeError
           | Some body \<Rightarrow>
               (case loads lib body of
                  None \<Rightarrow> Inr (SendError 400 ''Invalid JSON'')
                | Some request_data \<Rightarrow>
                    (case handle_query lib c request_data of
                       Inl e \<Rightarrow> Inl e
                     | Inr response \<Rightarrow> Inr (Response 200 response)))))"

section \<open>The data model (save\_watcher/models.py)\<close>

text \<open>
  The fields of \<open>Tile\<close> and \<open>Town\<close> carry the class name as a prefix, since \<open>Hero\<close>
  and \<open>Town\<close> share field names; the keys of the dictionaries are the source's.
\<close>

record Tile =
  tile_x :: int
  tile_y :: int
  tile_obj :: string
  tile_owner :: "int option"

record Hero =
  name :: string
  location :: "(string \<times> int) list"
  army :: "(string \<times> int) list list"
  movement_left :: int
  primary_stats :: "(string \<times> int) list"
  mana :: "int option"
  experience :: "int option"
  level :: "int option"
  skills :: "(string \<times> json) list list option"
  spells :: "int list option"
  artifacts :: "int list option"

record Town =
  town_name :: string
  town_location :: "(string \<times> int) list"
  town_owner :: int
  town_type :: string
  buildings :: "int list"
  garrison :: "(string \<times> int) list list"
  available_creatures :: "(string \<times> int) list list option"

record GameState =
  turn :: int
  current_player :: int
  visible_tiles :: "Tile list"
  heroes :: "Hero list"
  towns :: "Town list"
  resources :: "(string \<times> int) list option"

text \<open>The values that \<open>asdict\<close> builds from the fields.\<close>

definition opt_json :: "('a \<Rightarrow> json) \<Rightarrow> 'a option \<Rightarrow> json" where
  "opt_json f v = (case v of None \<Rightarrow> JNull | Some a \<Rightarrow> f a)"

definition int_dict :: "(string \<times> int) list \<Rightarrow> json" where
  "int_dict d = JObj (map (\<lambda>kv. (fst kv, JInt (snd kv))) d)"

definition int_dicts :: "(string \<times> int) list list \<Rightarrow> json" where
  "int_dicts ds = JArr (map int_dict ds)"

definition int_list :: "int list \<Rightarrow> json" where
  "int_list ns = JArr (map JInt ns)"

text \<open>The comprehension \<open>{k: v for k, v in data.items() if v is not None}\<close>.\<close>

definition drop_none :: "(string \<times> json) list \<Rightarrow> (string \<times> json) list" where
  "drop_none d = filter (\<lambda>kv. snd kv \<noteq> JNull) d"

definition Tile_to_dict :: "Tile \<Rightarrow> json" where
  "Tile_to_dict t =
     JObj [(''x'', JInt (tile_x t)), (''y'', JInt (tile_y t)), (''obj'', JStr (tile_obj t)),
           (''owner'', opt_json JInt (tile_owner t))]"

definition Hero_to_dict :: "Hero \<Rightarrow> json" where
  "Hero_to_dict h =
     JObj (drop_none
       [(''name'', JStr (name h)),
        (''location'', int_dict (location h)),
        (''army'', int_dicts (army h)),
        (''movement_left'', JInt (movement_left h)),
        (''primary_stats'', int_dict (primary_stats h)),
        (''mana'', opt_json JInt (mana h)),
        (''experience'', opt_json JInt (experience h)),
        (''level'', opt_json JInt (level h)),
        (''skills'', opt_json (\<lambda>ds. JArr (map JObj ds)) (skills h)),
        (''spells'', opt_json int_list (spells h)),
        (''artifacts'', opt_json int_list (artifacts h))])"

definition Town_to_dict :: "Town \<Rightarrow> json" where
  "Town_to_dict t =
     JObj (drop_none
       [(''name'', JStr (town_name t)),
        (''location'', int_dict (town_location t)),
        (''owner'', JInt (town_owner t)),
        (''type'', JStr (town_type t)),
        (''buildings'', int_list (buildings t)),
        (''garrison'', int_dicts (garrison t)),
        (''available_creatures'', opt_json int_dicts (available_creatures t))])"

text \<open>
  \<open>GameState.to_dict\<close>: \<open>if self.resources:\<close> adds the resources when the mapping is
  neither \<open>None\<close> nor empty.
\<close>

definition to_dict :: "GameState \<Rightarrow> json" where
  "to_dict g =
     JObj ([(''turn'', JInt (turn g)),
            (''currentPlayer'', JInt (current_player g)),
            (''visibleTiles'', JArr (map Tile_to_dict (visible_tiles g))),
            (''heroes'', JArr (map Hero_to_dict (heroes g))),
            (''towns'', JArr (map Town_to_dict (towns g)))]
           @ (case resources g of
                None \<Rightarrow> []
              | Some r \<Rightarrow> if r \<noteq> [] then [(''resources'', int_dict r)] else []))"

section \<open>The watcher (save\_watcher/watcher.py)\<close>

text \<open>
  \<open>Path.suffix\<close> and \<open>str.lower\<close> as pathlib and ASCII strings define them: the
  suffix of the last path component starts at its last dot, unless that dot is the
  first or the last character of the component. A path is the text that \<open>str(Path(p))\<close>
  gives, with \<open>/\<close> between its components and none at its end.
\<close>

definition path_name :: "string \<Rightarrow> string" where
  "path_name p = rev (takeWhile (\<lambda>c. c \<noteq> CHR ''/'') (rev p))"

definition path_suffix :: "string \<Rightarrow> string" where
  "path_suffix p =
     (let nm = path_name p;
          ext = rev (takeWhile (\<lambda>c. c \<noteq> CHR ''.'') (rev nm))
      in if CHR ''.'' \<in> set nm \<and> ext \<noteq> [] \<and> Suc (length ext) < length nm
         then CHR ''.'' # ext else [])"

definition lower_char :: "char \<Rightarrow> char" where
  "lower_char c =
     (if CHR ''A'' \<le> c \<and> c \<le> CHR ''Z'' then char_of (of_char c + (32::nat)) else c)"

definition lower :: "string \<Rightarrow> string" where
  "lower s = map lower_char s"

definition is_save_file :: "string \<Rightarrow> bool" where
  "is_save_file path =
     (lower (path_suffix path) \<in> set [''.gm1'', ''.gm2'', ''.gm3'', ''.gm4'', ''.gm5'', ''.gm6''])"

text \<open>
  What a call does to the outside: the parser is invoked on a path, a document is
  printed to standard output, the callback receives a game state, an error is logged.
\<close>

datatype effect =
    Parse string
  | Print json
  | Callback GameState
  | LogError string

record event =
  is_directory :: bool
  src_path :: string

text \<open>
  The handler: the time of the last accepted event of each path, whether a callback
  is set, and the debounce window (\<open>debounce_seconds = 1.0\<close>) in microseconds, the
  resolution of \<open>datetime\<close>.
\<close>

record SaveFileHandler =
  last_modified :: "string \<rightharpoonup> int"
  has_callback :: bool
  debounce_micros :: int

definition new_handler :: "bool \<Rightarrow> SaveFileHandler" where
  "new_handler cb = \<lparr>last_modified = Map.empty, has_callback = cb, debounce_micros = 1000000\<rparr>"

text \<open>
  \<open>on_modified(event)\<close> when \<open>datetime.now()\<close> is \<open>now\<close>; \<open>parser\<close> is
  \<open>SaveParser.parse_save_file\<close>, which returns \<open>None\<close> on every failure.
\<close>

definition on_modified ::
  "(string \<Rightarrow> GameState option) \<Rightarrow> SaveFileHandler \<Rightarrow> int \<Rightarrow> event \<Rightarrow> SaveFileHandler \<times> effect list" where
  "on_modified parser h now ev =
     (if is_directory ev then (h, [])
      else let path = src_path ev in
        if \<not> is_save_file path then (h, [])
        else if (case last_modified h path of
                   None \<Rightarrow> False
                 | Some last_mod \<Rightarrow> now - last_mod < debounce_micros h) then (h, [])
        else
          (h\<lparr>last_modified := (last_modified h)(path \<mapsto> now)\<rparr>,
           (case parser path of
              Some game_state \<Rightarrow>
                [Parse path, Print (to_dict game_state)]
                @ (if has_callback h then [Callback game_state] else [])
            | None \<Rightarrow> [Parse path, LogError path])))"

text \<open>The events of a run, each with the time at which the handler sees it.\<close>

fun run_events ::
  "(string \<Rightarrow> GameState option) \<Rightarrow> SaveFileHandler \<Rightarrow> (int \<times> event) list \<Rightarrow> SaveFileHandler \<times> effect list" where
  "run_events parser h [] = (h, [])"
| "run_events parser h ((now, ev) # rest) =
     (case on_modified parser h now ev of
        (h', out) \<Rightarrow> (case run_events parser h' rest of (h'', out') \<Rightarrow> (h'', out @ out')))"

definition parse_count :: "effect list \<Rightarrow> nat" where
  "parse_count out = length (filter (\<lambda>e. case e of Parse _ \<Rightarrow> True | _ \<Rightarrow> False) out)"

definition callbacks :: "effect list \<Rightarrow> GameState list" where
  "callbacks out = concat (map (\<lambda>e. case e of Callback g \<Rightarrow> [g] | _ \<Rightarrow> []) out)"

definition printed :: "effect list \<Rightarrow> json list" where
  "printed out = concat (map (\<lambda>e. case e of Print j \<Rightarrow> [j] | _ \<Rightarrow> []) out)"

text \<open>
  \<open>process_existing_saves()\<close>: \<open>glob\<close> lists the matches of a pattern in the watched
  directory, \<open>mtime\<close> is the modification time that \<open>stat\<close> reads (the files are
  still there when it does). Python's stable sort with
  \<open>reverse=True\<close> keeps files of equal time in their order, as the stable sort on
  the negated time does.
\<close>

definition process_existing_saves ::
  "(string \<Rightarrow> string list) \<Rightarrow> (string \<Rightarrow> int) \<Rightarrow> (string \<Rightarrow> GameState option) \<Rightarrow> SaveFileHandler
     \<Rightarrow> SaveFileHandler \<times> effect list" where
  "process_existing_saves glob mtime parser h =
     (let save_files = concat (map glob [''*.gm1'', ''*.GM1'', ''autosave_*.gm1''])
      in case sort_key (\<lambda>p. - mtime p) save_files of
           [] \<Rightarrow> (h, [])
         | latest_save # _ \<Rightarrow>
             (h, (case parser latest_save of
                    Some game_state \<Rightarrow> [Parse latest_save, Print (to_dict game_state)]
                  | None \<Rightarrow> [Parse latest_save])))"

section \<open>The cache on a heap of shared objects\<close>
















section \<open>Sample data\<close>

text \<open>The game state that \<open>SaveParser._create_mock_game_state\<close> returns.\<close>

definition mock_game_state :: GameState where
  "mock_game_state =
     \<lparr>turn = 28, current_player = 0,
      visible_tiles =
        [\<lparr>tile_x = 34, tile_y = 17, tile_obj = ''GoldMine'', tile_owner = None\<rparr>,
         \<lparr>tile_x = 35, tile_y = 17, tile_obj = ''CrystalCavern'', tile_owner = Some 0\<rparr>],
      heroes =
        [\<lparr>name = ''Ivor'',
          location = [(''x'', 34), (''y'', 17)],
          army = [[(''creatureId'', 17), (''count'', 87)]],
          movement_left = 578,
          primary_stats = [(''attack'', 9), (''defense'', 10), (''spellPower'', 4), (''knowledge'', 4)],
          mana = None, experience = None, level = None,
          skills = None, spells = None, artifacts = None\<rparr>],
      towns = [],
      resources = None\<rparr>"

text \<open>
  A fragment of the library on which the examples run: the codec knows three
  documents, a time is written as a fixed text, and a path gets the suffix appended.
\<close>

definition sample_doc :: json where
  "sample_doc = JObj [(''state'', JObj [(''turn'', JInt 7)]), (''last_update'', JStr ''T'')]"

definition sample_lib :: pylib where
  "sample_lib =
     \<lparr>loads = (\<lambda>s. if s = ''{}'' then Some (JObj [])
                   else if s = ''[]'' then Some (JArr [])
                   else if s = ''doc'' then Some sample_doc
                   else None),
      dumps = (\<lambda>j. if j = JObj [] then ''{}'' else if j = JArr [] then ''[]'' else ''doc''),
      isoformat = (\<lambda>t. ''T''),
      fromisoformat = (\<lambda>s. if s = ''T'' then Some 0 else None),
      py_str = (\<lambda>j. ''?''),
      py_int = (\<lambda>s. if s = ''0'' then Some 0 else if s = ''2'' then Some 2 else None),
      decode = Some,
      with_suffix = (\<lambda>p sfx. Some (p @ sfx))\<rparr>"

section \<open>The cache: reading after writing\<close>

lemma update_dict:
  "update lib c files now fault (JObj d) =
     (None, c\<lparr>c_state := JObj d, last_update := Some now\<rparr>,
      (case cache_file c of
         None \<Rightarrow> files
       | Some target \<Rightarrow>
           save_to_file lib (c\<lparr>c_state := JObj d, last_update := Some now\<rparr>) files fault target))"
  by (simp add: update_def Let_def)

text \<open>
  After a run of updates with dictionaries the state is the last dictionary, whatever
  happened to the cache file on the way.
\<close>

lemma updates_last:
  "xs \<noteq> [] \<Longrightarrow> \<forall>u\<in>set xs. \<exists>d. snd (snd u) = JObj d \<Longrightarrow>
   fst (updates lib c files xs) = None \<and>
   c_state (fst (snd (updates lib c files xs))) = snd (snd (last xs))"
proof (induction xs arbitrary: c files)
  case Nil
  then show ?case by simp
next
  case (Cons u us)
  obtain now fault s where u: "u = (now, fault, s)"
    by (cases u) auto
  from Cons.prems obtain d where s: "s = JObj d"
    by (auto simp: u)
  show ?case
  proof (cases "us = []")
    case True
    then show ?thesis by (simp add: u s update_dict)
  next
    case False
    with Cons show ?thesis by (simp add: u s update_dict)
  qed
qed

lemma updates_get_latest:
  assumes "xs \<noteq> []" and "\<forall>u\<in>set xs. \<exists>d. snd (snd u) = JObj d"
    and "snd (snd (last xs)) = JObj d" and "d \<noteq> []"
  shows "get_latest (fst (snd (updates lib c files xs))) = Inr (JObj d)"
  using updates_last [OF assms(1,2), of lib c files] assms(3,4)
  by (simp add: get_latest_def)

text \<open>
  C1. After \<open>update(s1), ..., update(sn)\<close> a call of \<open>get_latest()\<close> returns a value
  equal to \<open>sn\<close>, for every choice of the dictionaries. The method tests the truth
  value of the state, not whether it is \<open>None\<close>: after \<open>update({})\<close> the update
  returns normally and \<open>get_latest()\<close> returns \<open>None\<close>, which is not the empty
  dictionary. (For a last snapshot that is not empty the claim holds:
  \<open>updates_get_latest\<close>.)
\<close>

theorem get_latest_after_empty_update:
  "fst (updates lib c files [(now, fault, JObj [])]) = None \<and>
   c_state (fst (snd (updates lib c files [(now, fault, JObj [])]))) = JObj [] \<and>
   get_latest (fst (snd (updates lib c files [(now, fault, JObj [])]))) = Inr JNull \<and>
   Inr JNull \<noteq> (Inr (JObj []) :: py_error + json)"
  by (simp add: update_dict get_latest_def)

section \<open>The cache: persistence\<close>

lemma update_survives_failed_save:
  "cache_file c = Some p \<Longrightarrow> d \<noteq> [] \<Longrightarrow>
   fst (update lib c files now fault (JObj d)) = None \<and>
   get_latest (fst (snd (update lib c files now fault (JObj d)))) = Inr (JObj d)"
  by (simp add: update_dict get_latest_def)

text \<open>
  C5. With a cache file configured, \<open>update(s)\<close> returns without raising when the
  write of the file fails, and \<open>get_latest()\<close> then returns a value equal to \<open>s\<close>, for
  every snapshot \<open>s\<close>. The failure is indeed swallowed and the state stored
  (\<open>update_survives_failed_save\<close>), but for the empty dictionary \<open>get_latest()\<close>
  returns \<open>None\<close>, by the truth-value test of C1: here \<open>open\<close> fails, the update
  returns normally, the state is \<open>{}\<close> and the files are untouched.
\<close>

theorem update_failed_save_empty_snapshot:
  "fst (update lib (c\<lparr>cache_file := Some p\<rparr>) files now OpenFails (JObj [])) = None \<and>
   c_state (fst (snd (update lib (c\<lparr>cache_file := Some p\<rparr>) files now OpenFails (JObj [])))) = JObj [] \<and>
   get_latest (fst (snd (update lib (c\<lparr>cache_file := Some p\<rparr>) files now OpenFails (JObj []))))
     = Inr JNull \<and>
   snd (snd (update lib (c\<lparr>cache_file := Some p\<rparr>) files now OpenFails (JObj []))) = files"
  by (simp add: update_dict get_latest_def save_to_file_def save_body_def Let_def split: option.splits)



text \<open>
  C7. After \<open>update(s)\<close> on a cache with the file \<open>p\<close>, a fresh cache constructed on
  \<open>p\<close> returns from \<open>get_latest()\<close> what the first cache returns. The snapshot is
  serializable in that the codec reads back the document it wrote and \<open>fromisoformat\<close>
  reads the time that \<open>isoformat\<close> wrote; the write and the rename succeed.
\<close>

theorem persistence_roundtrip:
  assumes "cache_file c = Some p"
    and "update lib c files now NoFault (JObj s) = (e, c', files')"
    and "with_suffix lib p ''.tmp'' = Some tmp"
    and "loads lib (dumps lib (JObj [(''state'', JObj s),
                                      (''last_update'', JStr (isoformat lib now))]))
           = Some (JObj [(''state'', JObj s), (''last_update'', JStr (isoformat lib now))])"
    and "fromisoformat lib (isoformat lib now) = Some t"
  shows "get_latest (init_cache lib (Some p) files' True) = get_latest c'"
proof -
  let ?doc = "JObj [(''state'', JObj s), (''last_update'', JStr (isoformat lib now))]"
  have c': "c_state c' = JObj s"
    using assms(2) by (auto simp add: update_dict)
  have f': "files' p = Some (dumps lib ?doc)"
    using assms(1,2,3) by (auto simp add: update_dict save_to_file_def save_body_def)
  have "c_state (load_from_file lib \<lparr>cache_file = Some p, c_state = JNull, last_update = None\<rparr>
                   files' True p) = JObj s"
    using f' assms(4,5)
    by (cases "isoformat lib now = []")
       (simp_all add: load_from_file_def load_body_def dict_get_def)
  then have "c_state (init_cache lib (Some p) files' True) = JObj s"
    using f' by (simp add: init_cache_def)
  with c' show ?thesis by (simp add: get_latest_def)
qed

theorem persistence_roundtrip_witness:
  "get_latest (init_cache sample_lib (Some ''c.json'')
      (snd (snd (update sample_lib
                   \<lparr>cache_file = Some ''c.json'', c_state = JNull, last_update = None\<rparr>
                   Map.empty 5 NoFault (JObj [(''turn'', JInt 7)])))) True)
   = Inr (JObj [(''turn'', JInt 7)])"
proof -
  let ?c = "\<lparr>cache_file = Some ''c.json'', c_state = JNull, last_update = None\<rparr>"
  let ?u = "update sample_lib ?c Map.empty 5 NoFault (JObj [(''turn'', JInt 7)])"
  have u: "?u = (fst ?u, fst (snd ?u), snd (snd ?u))"
    by simp
  have "get_latest (init_cache sample_lib (Some ''c.json'') (snd (snd ?u)) True)
          = get_latest (fst (snd ?u))"
    by (rule persistence_roundtrip
          [where c = ?c and files = Map.empty and now = 5 and tmp = "''c.json.tmp''" and t = 0,
           OF _ u])
       (simp_all add: sample_lib_def sample_doc_def)
  then show ?thesis
    by (simp add: update_dict get_latest_def)
qed

section \<open>The query endpoint\<close>

text \<open>
  C2. For a POST on the query endpoint whose body is well-formed JSON: without a
  snapshot the response is the error payload, with a turn that differs from the cached
  one it is the mismatch payload, otherwise it is the success payload. As amended:
  this holds when the body is a JSON object (and \<open>null\<close> as turn counts as no turn);
  the response has status 200 in all three cases.
\<close>

theorem query_object_body:
  assumes "content_length req = Some h" and "py_int lib h = Some n" and "0 < n"
    and "decode lib (take (nat n) (rfile req)) = Some body"
    and "loads lib body = Some (JObj d)"
  shows "(get_latest c = Inr JNull \<longrightarrow>
            server_handle_query lib c req =
              Inr (Response 200
                (JObj [(''error'', JStr ''No game state available''),
                       (''message'', JStr ''Waiting for Heroes III save file to be detected'')]))) \<and>
         (\<forall>g. get_latest c = Inr (JObj g) \<longrightarrow>
            (dict_get d ''turn'' \<noteq> JNull \<and> \<not> py_eq (dict_get d ''turn'') (dict_get g ''turn'') \<longrightarrow>
               server_handle_query lib c req =
                 Inr (Response 200
                   (turn_mismatch_response lib (dict_get d ''turn'') (dict_get g ''turn'')))) \<and>
            (dict_get d ''turn'' = JNull \<or> py_eq (dict_get d ''turn'') (dict_get g ''turn'') \<longrightarrow>
               server_handle_query lib c req =
                 Inr (Response 200
                   (JObj [(''success'', JBool True),
                          (''data'', JObj g),
                          (''metadata'',
                             JObj [(''cached_at'', (case last_update c of None \<Rightarrow> JNull
                                                    | Some t \<Rightarrow> JStr (isoformat lib t))),
                                   (''version'', JStr ''1.0.0'')])]))))"
  using assms
  by (auto simp: server_handle_query_def handle_query_def no_state_response_def
        success_response_def)

theorem query_object_body_witness:
  "server_handle_query sample_lib
     \<lparr>cache_file = None, c_state = JObj [(''turn'', JInt 7)], last_update = None\<rparr>
     \<lparr>content_length = Some ''2'', rfile = ''{}''\<rparr>
   = Inr (Response 200
       (JObj [(''success'', JBool True),
              (''data'', JObj [(''turn'', JInt 7)]),
              (''metadata'', JObj [(''cached_at'', JNull), (''version'', JStr ''1.0.0'')])]))"
  using query_object_body
    [of "\<lparr>content_length = Some ''2'', rfile = ''{}''\<rparr>" "''2''" sample_lib 2 "''{}''" "[]"
        "\<lparr>cache_file = None, c_state = JObj [(''turn'', JInt 7)], last_update = None\<rparr>"]
  by (simp add: sample_lib_def get_latest_def dict_get_def)

text \<open>
  The body \<open>[]\<close> is well-formed JSON; with a snapshot cached, \<open>request_data.get\<close>
  raises and the handler sends no payload.
\<close>

theorem query_non_object_body_counterexample:
  "server_handle_query sample_lib
     \<lparr>cache_file = None, c_state = JObj [(''turn'', JInt 7)], last_update = None\<rparr>
     \<lparr>content_length = Some ''2'', rfile = ''[]''\<rparr> = Inl AttributeError"
  by (simp add: server_handle_query_def sample_lib_def handle_query_def get_latest_def)

text \<open>
  C10. A POST without a body (Content-Length absent or 0) is treated as the query
  \<open>{}\<close>: it is not rejected with 400 and has the response of a request with the body
  \<open>{}\<close>, the no-data payload on an empty cache and the snapshot otherwise.
\<close>

theorem empty_body_query:
  assumes "loads lib ''{}'' = Some (JObj [])"
    and "content_length req = None \<or> (\<exists>h. content_length req = Some h \<and> py_int lib h = Some 0)"
    and "content_length req' = Some h'" and "py_int lib h' = Some 2" and "rfile req' = ''{}''"
    and "decode lib ''{}'' = Some ''{}''"
  shows "server_handle_query lib c req = server_handle_query lib c req' \<and>
         server_handle_query lib c req \<noteq> Inr (SendError 400 ''Invalid JSON'') \<and>
         server_handle_query lib c req =
           (case handle_query lib c (JObj []) of
              Inl e \<Rightarrow> Inl e
            | Inr response \<Rightarrow> Inr (Response 200 response)) \<and>
         (get_latest c = Inr JNull \<longrightarrow>
            server_handle_query lib c req = Inr (Response 200 no_state_response)) \<and>
         (\<forall>g. get_latest c = Inr (JObj g) \<longrightarrow>
            server_handle_query lib c req = Inr (Response 200 (success_response lib c (JObj g))))"
  using assms
  by (auto simp: server_handle_query_def handle_query_def dict_get_def split: sum.splits)

theorem empty_body_query_witness:
  "server_handle_query sample_lib
     \<lparr>cache_file = None, c_state = JObj [(''turn'', JInt 7)], last_update = None\<rparr>
     \<lparr>content_length = None, rfile = []\<rparr>
   = server_handle_query sample_lib
     \<lparr>cache_file = None, c_state = JObj [(''turn'', JInt 7)], last_update = None\<rparr>
     \<lparr>content_length = Some ''2'', rfile = ''{}''\<rparr>"
  using empty_body_query
    [of sample_lib "\<lparr>content_length = None, rfile = []\<rparr>"
        "\<lparr>content_length = Some ''2'', rfile = ''{}''\<rparr>" "''2''"
        "\<lparr>cache_file = None, c_state = JObj [(''turn'', JInt 7)], last_update = None\<rparr>"]
  by (simp add: sample_lib_def)

section \<open>The watcher\<close>

text \<open>
  C3. Two modification events on one path with a save extension, the first of them
  accepted: when the second comes less than the window of 1.0 s after the first, the
  parser runs once and the recorded time stays that of the first event; when it comes
  a window or more later (1.1 s, say), the parser runs twice and the recorded time is
  that of the second event.
\<close>

theorem debounce_two_events:
  assumes "is_save_file p" and "\<not> is_directory e1" and "\<not> is_directory e2"
    and "src_path e1 = p" and "src_path e2 = p"
    and "debounce_micros h = 1000000"
    and "case last_modified h p of None \<Rightarrow> True | Some l \<Rightarrow> 1000000 \<le> t1 - l"
  shows "(t2 - t1 < 1000000 \<longrightarrow>
            parse_count (snd (run_events parser h [(t1, e1), (t2, e2)])) = 1 \<and>
            last_modified (fst (run_events parser h [(t1, e1), (t2, e2)])) p = Some t1) \<and>
         (1000000 \<le> t2 - t1 \<longrightarrow>
            parse_count (snd (run_events parser h [(t1, e1), (t2, e2)])) = 2 \<and>
            last_modified (fst (run_events parser h [(t1, e1), (t2, e2)])) p = Some t2)"
  using assms
  by (auto simp: on_modified_def parse_count_def Let_def split: option.splits)

theorem debounce_two_events_witness:
  "parse_count (snd (run_events (\<lambda>p. None) (new_handler False)
      [(0, \<lparr>is_directory = False, src_path = ''saves/game.GM1''\<rparr>),
       (100000, \<lparr>is_directory = False, src_path = ''saves/game.GM1''\<rparr>)])) = 1 \<and>
   parse_count (snd (run_events (\<lambda>p. None) (new_handler False)
      [(0, \<lparr>is_directory = False, src_path = ''saves/game.GM1''\<rparr>),
       (1100000, \<lparr>is_directory = False, src_path = ''saves/game.GM1''\<rparr>)])) = 2"
proof -
  let ?e = "\<lparr>is_directory = False, src_path = ''saves/game.GM1''\<rparr>"
  have sf: "is_save_file ''saves/game.GM1''"
    by code_simp
  show ?thesis
    using debounce_two_events [OF sf, of ?e ?e "new_handler False" 0 100000 "\<lambda>p. None"]
      debounce_two_events [OF sf, of ?e ?e "new_handler False" 0 1100000 "\<lambda>p. None"]
    by (simp add: new_handler_def)
qed

lemma sort_key_head:
  "sort_key f xs = y # ys \<Longrightarrow> y \<in> set xs \<and> (\<forall>x\<in>set xs. f y \<le> f x)"
proof -
  assume a: "sort_key f xs = y # ys"
  have "set (sort_key f xs) = set xs" by simp
  moreover have "sorted (map f (sort_key f xs))" by simp
  ultimately show ?thesis using a by auto
qed

text \<open>
  The file that \<open>process_existing_saves\<close> parses is a match of one of the three
  patterns and no match is newer; the document is printed when the parser succeeds.
\<close>

lemma process_existing_saves_latest:
  assumes "concat (map glob [''*.gm1'', ''*.GM1'', ''autosave_*.gm1'']) \<noteq> []"
  shows "\<exists>latest \<in> set (concat (map glob [''*.gm1'', ''*.GM1'', ''autosave_*.gm1''])).
           (\<forall>q \<in> set (concat (map glob [''*.gm1'', ''*.GM1'', ''autosave_*.gm1''])).
               mtime q \<le> mtime latest) \<and>
           snd (process_existing_saves glob mtime parser h) =
             (case parser latest of
                Some game_state \<Rightarrow> [Parse latest, Print (to_dict game_state)]
              | None \<Rightarrow> [Parse latest])"
proof -
  let ?fs = "concat (map glob [''*.gm1'', ''*.GM1'', ''autosave_*.gm1''])"
  obtain y ys where s: "sort_key (\<lambda>p. - mtime p) ?fs = y # ys"
    using assms by (cases "sort_key (\<lambda>p. - mtime p) ?fs") (auto dest: arg_cong[where f=length])
  from sort_key_head[OF s] have "y \<in> set ?fs" and "\<forall>q\<in>set ?fs. mtime q \<le> mtime y"
    by auto
  moreover have "snd (process_existing_saves glob mtime parser h) =
             (case parser y of
                Some game_state \<Rightarrow> [Parse y, Print (to_dict game_state)]
              | None \<Rightarrow> [Parse y])"
    using s by (simp add: process_existing_saves_def Let_def split: option.splits)
  ultimately show ?thesis by blast
qed

text \<open>
  C4. \<open>process_existing_saves()\<close> parses the most recent matching file and forwards
  the snapshot as a live event would, to the callback and to standard output. It
  prints the document but never calls the callback and leaves the handler alone,
  while \<open>on_modified\<close> on the same file, with a callback set, prints and calls it.
\<close>

theorem process_existing_saves_no_callback:
  "callbacks (snd (process_existing_saves glob mtime parser h)) = [] \<and>
   fst (process_existing_saves glob mtime parser h) = h \<and>
   snd (process_existing_saves (\<lambda>pat. if pat = ''*.gm1'' then [''saves/game.gm1''] else [])
          (\<lambda>p. 0) (\<lambda>p. Some mock_game_state) (new_handler True))
     = [Parse ''saves/game.gm1'', Print (to_dict mock_game_state)] \<and>
   snd (on_modified (\<lambda>p. Some mock_game_state) (new_handler True) 0
          \<lparr>is_directory = False, src_path = ''saves/game.gm1''\<rparr>)
     = [Parse ''saves/game.gm1'', Print (to_dict mock_game_state), Callback mock_game_state]"
proof -
  have sf: "is_save_file ''saves/game.gm1''"
    by code_simp
  have "callbacks (snd (process_existing_saves glob mtime parser h)) = []"
    by (auto simp: process_existing_saves_def callbacks_def Let_def
          split: list.splits option.splits)
  moreover have "fst (process_existing_saves glob mtime parser h) = h"
    by (auto simp: process_existing_saves_def Let_def split: list.splits)
  moreover have "snd (process_existing_saves (\<lambda>pat. if pat = ''*.gm1'' then [''saves/game.gm1''] else [])
          (\<lambda>p. 0) (\<lambda>p. Some mock_game_state) (new_handler True))
     = [Parse ''saves/game.gm1'', Print (to_dict mock_game_state)]"
    by (simp add: process_existing_saves_def)
  moreover have "snd (on_modified (\<lambda>p. Some mock_game_state) (new_handler True) 0
          \<lparr>is_directory = False, src_path = ''saves/game.gm1''\<rparr>)
     = [Parse ''saves/game.gm1'', Print (to_dict mock_game_state), Callback mock_game_state]"
    using sf by (simp add: on_modified_def new_handler_def Let_def)
  ultimately show ?thesis by simp
qed

section \<open>Serialized snapshots\<close>




section \<open>Sharing between the cache and its callers\<close>











end
